theory Spec2Isabelle
  imports Complex_Main
begin

section \<open>Calculator for atmospheric LNG gasifiers: the embedding\<close>

text \<open>
  The program is \<^verbatim>\<open>calculadora_gasificador.py\<close>. Its numbers are Python floats and
  ints; the embedding reads a float as the real number it stands for, so rounding and
  overflow of the machine format are outside the model, with one exception: the
  quotient that gives the finned diameter \<open>D_h\<close> is rounded to a double as the
  program rounds it, because the comparison of the Reynolds number with its threshold
  depends on that rounding at ordinary inputs. What Python does beyond real
  arithmetic is kept: a division by zero raises \<^verbatim>\<open>ZeroDivisionError\<close>, a negative
  float raised to a fractional power is a \<^verbatim>\<open>complex\<close>, and \<^verbatim>\<open>round\<close> of a
  \<^verbatim>\<open>complex\<close> raises \<^verbatim>\<open>TypeError\<close>.
\<close>

subsection \<open>Python numbers and their failures\<close>

datatype py_error = ZeroDivisionError | TypeError

datatype pyval = Float real | Complex complex

type_synonym pyres = "py_error + pyval"

definition fl :: "real \<Rightarrow> pyres" where
  "fl x = Inr (Float x)"

fun to_c :: "pyval \<Rightarrow> complex" where
  "to_c (Float x) = complex_of_real x"
| "to_c (Complex z) = z"

text \<open>Coercion of a binary operation: the result is a float only if both operands are.\<close>

fun v_add :: "pyval \<Rightarrow> pyval \<Rightarrow> pyres" where
  "v_add (Float x) (Float y) = Inr (Float (x + y))"
| "v_add u v = Inr (Complex (to_c u + to_c v))"

fun v_mul :: "pyval \<Rightarrow> pyval \<Rightarrow> pyres" where
  "v_mul (Float x) (Float y) = Inr (Float (x * y))"
| "v_mul u v = Inr (Complex (to_c u * to_c v))"

fun v_div :: "pyval \<Rightarrow> pyval \<Rightarrow> pyres" where
  "v_div (Float x) (Float y) =
     (if y = 0 then Inl ZeroDivisionError else Inr (Float (x / y)))"
| "v_div u v =
     (if to_c v = 0 then Inl ZeroDivisionError else Inr (Complex (to_c u / to_c v)))"

text \<open>An exception in an operand propagates, the left operand first.\<close>

fun lift2 :: "(pyval \<Rightarrow> pyval \<Rightarrow> pyres) \<Rightarrow> pyres \<Rightarrow> pyres \<Rightarrow> pyres" where
  "lift2 f (Inl e) b = Inl e"
| "lift2 f (Inr u) (Inl e) = Inl e"
| "lift2 f (Inr u) (Inr v) = f u v"

definition py_add :: "pyres \<Rightarrow> pyres \<Rightarrow> pyres" where
  "py_add = lift2 v_add"

definition py_mul :: "pyres \<Rightarrow> pyres \<Rightarrow> pyres" where
  "py_mul = lift2 v_mul"

definition py_div :: "pyres \<Rightarrow> pyres \<Rightarrow> pyres" where
  "py_div = lift2 v_div"

text \<open>
  \<^verbatim>\<open>x ** k\<close> for an int literal \<open>k\<close> (the source has \<open>2\<close> and \<open>3\<close>).
\<close>

fun py_powi :: "pyres \<Rightarrow> nat \<Rightarrow> pyres" where
  "py_powi (Inl e) k = Inl e"
| "py_powi (Inr (Float x)) k = Inr (Float (x ^ k))"
| "py_powi (Inr (Complex z)) k = Inr (Complex (z ^ k))"

text \<open>
  \<^verbatim>\<open>x ** y\<close> for a float exponent \<open>y\<close> that is positive and not an integer (every
  float exponent of the source is). A zero base gives zero; a negative float base
  gives a complex number, computed in polar form on the principal branch.
\<close>

definition c_pow :: "complex \<Rightarrow> real \<Rightarrow> complex" where
  "c_pow z y = (if z = 0 then 0 else rcis (cmod z powr y) (y * Arg z))"

fun py_pow :: "pyres \<Rightarrow> real \<Rightarrow> pyres" where
  "py_pow (Inl e) y = Inl e"
| "py_pow (Inr (Float x)) y =
     (if x < 0 then Inr (Complex (c_pow (complex_of_real x) y)) else Inr (Float (x powr y)))"
| "py_pow (Inr (Complex z)) y = Inr (Complex (c_pow z y))"

text \<open>
  \<^verbatim>\<open>round(x)\<close> rounds a float to the nearest int, a tie to the even one;
  \<^verbatim>\<open>round(x, d)\<close> rounds to \<open>d\<close> decimals and stays a float. Both raise
  \<^verbatim>\<open>TypeError\<close> on a complex number.
\<close>

definition round_half_even :: "real \<Rightarrow> int" where
  "round_half_even x =
     (let f = \<lfloor>x\<rfloor>; d = x - of_int f
      in if d < 1/2 then f else if 1/2 < d then f + 1 else if even f then f else f + 1)"

fun py_round :: "pyres \<Rightarrow> py_error + int" where
  "py_round (Inl e) = Inl e"
| "py_round (Inr (Float x)) = Inr (round_half_even x)"
| "py_round (Inr (Complex z)) = Inl TypeError"

fun py_round_nd :: "pyres \<Rightarrow> nat \<Rightarrow> py_error + real" where
  "py_round_nd (Inl e) d = Inl e"
| "py_round_nd (Inr (Float x)) d = Inr (of_int (round_half_even (x * 10 ^ d)) / 10 ^ d)"
| "py_round_nd (Inr (Complex z)) d = Inl TypeError"

text \<open>
  The double nearest to a real number, a tie to the even significand: 53 significant
  bits, the unit in the last place taken from the binary exponent. Overflow and
  subnormal numbers are not modelled.
\<close>

definition round_double :: "real \<Rightarrow> real" where
  "round_double x =
     (if x = 0 then 0
      else let e = \<lfloor>log 2 \<bar>x\<bar>\<rfloor>; ulp = 2 powr (of_int e - 52)
           in of_int (round_half_even (x / ulp)) * ulp)"

subsection \<open>Physical constants\<close>

definition RHO_LNG :: real where "RHO_LNG = 430"
definition CP_LNG :: real where "CP_LNG = 2500"
definition RHO_GNG :: real where "RHO_GNG = 1"
definition CP_GNG :: real where "CP_GNG = 2100"
definition LATENT :: real where "LATENT = 510000"
definition MU_AIR :: real where "MU_AIR = 18 / 1000000"
definition K_AIR :: real where "K_AIR = 0.026"
definition PR_AIR :: real where "PR_AIR = 0.71"

subsection \<open>FinTubeGeometry\<close>

record FinTubeGeometry =
  tube_od_mm :: real
  fin_height_mm :: real
  fins_per_tube :: int
  fin_efficiency :: real

definition area_per_meter :: "FinTubeGeometry \<Rightarrow> real" where
  "area_per_meter self =
     (let A_primary = pi * (tube_od_mm self / 1000);
          A_fins = of_int (fins_per_tube self) *
                     (2 * pi * (tube_od_mm self / 1000) * fin_height_mm self / 1000)
      in A_primary + fin_efficiency self * A_fins)"

subsection \<open>AmbientConditions\<close>

record AmbientConditions =
  T_air :: real
  v_wind :: real

text \<open>
  \<open>Gr\<close>, \<open>Ra\<close> and \<open>Re\<close> are built with float products, an int power and divisions by
  non-zero constants only, so they are floats. The divisor of \<open>Nu_nat\<close> is a power of
  a positive constant. The last division, by \<open>D_h\<close>, is the one that can raise.
\<close>

definition h_coefficient :: "AmbientConditions \<Rightarrow> real \<Rightarrow> pyres" where
  "h_coefficient self D_h =
     (let beta = 1 / 273.15;
          Gr = 9.81 * beta * (T_air self + 273.15 - (- 160 + 273.15)) * D_h ^ 3 / MU_AIR ^ 2;
          Ra = Gr * PR_AIR;
          Nu_nat = py_powi
            (py_add (fl 0.825)
               (py_div (py_mul (fl 0.387) (py_pow (fl Ra) (1 / 6)))
                  (py_pow (py_add (fl 1) (py_pow (fl (0.492 / PR_AIR)) (9 / 16))) (8 / 27)))) 2;
          Re = RHO_GNG * v_wind self * D_h / MU_AIR;
          (C, m) = (if Re < 100000 then (0.3, 0.62) else (0.027, 0.805));
          Nu_for = py_mul (py_mul (fl C) (py_pow (fl Re) m)) (py_pow (fl PR_AIR) 0.37);
          n = 3;
          Nu_mix = py_pow (py_add (py_powi Nu_nat n) (py_powi Nu_for n)) (1 / real n)
      in py_div (py_mul Nu_mix (fl K_AIR)) (fl D_h))"

subsection \<open>ModuleConfig\<close>

record ModuleConfig =
  tubes_x :: int
  tubes_y :: int
  spacing_x_mm :: real
  spacing_y_mm :: real

definition footprint_mm :: "ModuleConfig \<Rightarrow> real \<Rightarrow> real \<times> real" where
  "footprint_mm self tube_d_mm =
     (let fx = (of_int (tubes_x self) - 1) * spacing_x_mm self + tube_d_mm;
          fy = (of_int (tubes_y self) - 1) * spacing_y_mm self + tube_d_mm
      in (fx, fy))"

definition n_tubes :: "ModuleConfig \<Rightarrow> int" where
  "n_tubes self = tubes_x self * tubes_y self"

subsection \<open>Gasifier\<close>

record Gasifier =
  geom :: FinTubeGeometry
  module :: ModuleConfig
  tube_length_mm :: real
  ambient :: AmbientConditions

definition thermal_time_constant :: "Gasifier \<Rightarrow> pyres" where
  "thermal_time_constant self =
     (let mass_Al = 2700 * (area_per_meter (geom self) * 0.002) * (tube_length_mm self / 1000)
                      * of_int (n_tubes (module self));
          Cth = mass_Al * 900;
          hA = py_mul (py_mul (py_mul
                 (h_coefficient (ambient self)
                    (round_double
                       ((tube_od_mm (geom self) + 2 * fin_height_mm (geom self)) / 1000)))
                 (fl (area_per_meter (geom self))))
                 (fl (tube_length_mm self / 1000)))
                 (fl (of_int (n_tubes (module self))))
      in py_div (py_div (fl Cth) hA) (fl 3600))"

text \<open>
  The mode is compared with \<^verbatim>\<open>"cold-start"\<close> only: every other string, \<^verbatim>\<open>"steady"\<close>
  among them, takes the last return. The cold-start branch calls
  \<open>thermal_time_constant\<close> and drops its value; an exception of that call remains.
\<close>

definition capacity :: "Gasifier \<Rightarrow> string \<Rightarrow> pyres" where
  "capacity self mode =
     (let D_h = round_double
                  ((tube_od_mm (geom self) + 2 * fin_height_mm (geom self)) / 1000);
          h = h_coefficient (ambient self) D_h;
          U = h;
          A_per_tube = area_per_meter (geom self) * (tube_length_mm self / 1000);
          Qtot = py_mul (py_mul U (fl A_per_tube)) (fl (T_air (ambient self) - (- 160)));
          m_dot = py_div Qtot (fl (LATENT + CP_LNG * ((- 160) - (- 160))));
          nTubes = n_tubes (module self);
          flow_total = py_div (py_mul (py_mul m_dot (fl (of_int nTubes))) (fl 3600)) (fl 0.693)
      in case flow_total of
           Inl e \<Rightarrow> Inl e
         | Inr ft \<Rightarrow>
             if mode = ''cold-start'' then
               (case thermal_time_constant self of
                  Inl e \<Rightarrow> Inl e
                | Inr tau_s \<Rightarrow> py_mul (Inr ft) (fl 0.5))
             else Inr ft)"

text \<open>The dictionary of \<open>summary\<close>, its entries evaluated in the order of the source.\<close>

record Summary =
  s_n_tubes :: int
  s_area_total_m2 :: real
  s_capacity_Nm3_h :: int
  s_footprint_x :: int
  s_footprint_y :: int
  s_footprint_z :: real
  s_tau_h :: real

definition summary :: "Gasifier \<Rightarrow> py_error + Summary" where
  "summary self =
     (let (fx, fy) = footprint_mm (module self)
                       (tube_od_mm (geom self) + 2 * fin_height_mm (geom self))
      in case py_round_nd (fl (area_per_meter (geom self) * (tube_length_mm self / 1000)
                                 * of_int (n_tubes (module self)))) 1 of
           Inl e \<Rightarrow> Inl e
         | Inr area \<Rightarrow>
            (case py_round (capacity self ''steady'') of
               Inl e \<Rightarrow> Inl e
             | Inr cap \<Rightarrow>
                (case py_round (fl fx) of
                   Inl e \<Rightarrow> Inl e
                 | Inr rx \<Rightarrow>
                    (case py_round (fl fy) of
                       Inl e \<Rightarrow> Inl e
                     | Inr ry \<Rightarrow>
                        (case py_round_nd (thermal_time_constant self) 2 of
                           Inl e \<Rightarrow> Inl e
                         | Inr tau \<Rightarrow>
                             Inr \<lparr> s_n_tubes = n_tubes (module self),
                                   s_area_total_m2 = area,
                                   s_capacity_Nm3_h = cap,
                                   s_footprint_x = rx,
                                   s_footprint_y = ry,
                                   s_footprint_z = tube_length_mm self,
                                   s_tau_h = tau \<rparr>)))))"

subsection \<open>The example of the source\<close>

text \<open>
  The gasifier built by the \<^verbatim>\<open>__main__\<close> block of the source: 10.6 m tubes,
  8 by 18 tubes per module.
\<close>

definition example_gasif :: Gasifier where
  "example_gasif =
     \<lparr> geom = \<lparr> tube_od_mm = 28, fin_height_mm = 300, fins_per_tube = 16,
                fin_efficiency = 0.85 \<rparr>,
       module = \<lparr> tubes_x = 8, tubes_y = 18, spacing_x_mm = 215, spacing_y_mm = 215 \<rparr>,
       tube_length_mm = 10600,
       ambient = \<lparr> T_air = 20, v_wind = 1 \<rparr> \<rparr>"

section \<open>The specification\<close>

subsection \<open>Pre-validated inputs\<close>

text \<open>
  The ranges of the data model: tube diameter, spacings and tube length positive, fin
  height and fin count not negative, fin efficiency in \<open>(0, 1]\<close>, at least one tube
  each way, wind speed not negative. The ambient air is not colder than the cryogenic
  reference of \<open>-160\<close> degrees, so that the Rayleigh number is not negative: below
  that the program computes with complex numbers.
\<close>

definition valid_geometry :: "FinTubeGeometry \<Rightarrow> bool" where
  "valid_geometry g \<longleftrightarrow>
     0 < tube_od_mm g \<and> 0 \<le> fin_height_mm g \<and> 0 \<le> fins_per_tube g \<and>
     0 < fin_efficiency g \<and> fin_efficiency g \<le> 1"

definition valid_ambient :: "AmbientConditions \<Rightarrow> bool" where
  "valid_ambient a \<longleftrightarrow> 0 \<le> v_wind a \<and> - 160 \<le> T_air a"

definition valid_module :: "ModuleConfig \<Rightarrow> bool" where
  "valid_module m \<longleftrightarrow>
     1 \<le> tubes_x m \<and> 1 \<le> tubes_y m \<and> 0 < spacing_x_mm m \<and> 0 < spacing_y_mm m"

definition valid_gasifier :: "Gasifier \<Rightarrow> bool" where
  "valid_gasifier self \<longleftrightarrow>
     valid_geometry (geom self) \<and> valid_module (module self) \<and>
     valid_ambient (ambient self) \<and> 0 < tube_length_mm self"

subsection \<open>The formulas as the specification words them\<close>

text \<open>
  The exposed area per metre with the lateral area of a fin taken at the fin radius
  (tube radius plus fin height), as the specification describes it.
\<close>

definition area_per_meter_spec :: "FinTubeGeometry \<Rightarrow> real" where
  "area_per_meter_spec g =
     (let bare_circumference = pi * (tube_od_mm g / 1000);
          circumference_at_fin_radius = 2 * pi * ((tube_od_mm g / 2 + fin_height_mm g) / 1000);
          fin_lateral_area = 2 * circumference_at_fin_radius * (fin_height_mm g / 1000);
          total_fin_area = of_int (fins_per_tube g) * fin_lateral_area
      in bare_circumference + fin_efficiency g * total_fin_area)"

text \<open>
  Mixed convection: the Grashof number, the Churchill-Chu correlation for a vertical
  plate, the Reynolds number, the Zukauskas correlation with its two pairs of constants,
  and the power mean of order three of the two Nusselt numbers.
  The formulas are read where the Rayleigh and Reynolds numbers are not negative: on a
  negative base \<open>powr\<close> is the power of the absolute value, which is neither the
  mathematics of the correlations nor what Python computes.
\<close>

definition grashof :: "real \<Rightarrow> real \<Rightarrow> real" where
  "grashof T D_h = 9.81 * (1 / 273.15) * (T - (- 160)) * D_h ^ 3 / MU_AIR ^ 2"

definition churchill_chu :: "real \<Rightarrow> real \<Rightarrow> real" where
  "churchill_chu Ra Pr =
     (0.825 + 0.387 * Ra powr (1 / 6) / (1 + (0.492 / Pr) powr (9 / 16)) powr (8 / 27)) ^ 2"

definition reynolds :: "real \<Rightarrow> real \<Rightarrow> real" where
  "reynolds v D_h = RHO_GNG * v * D_h / MU_AIR"

definition zukauskas :: "real \<Rightarrow> real \<Rightarrow> real" where
  "zukauskas Rey Pr =
     (if Rey < 100000 then 0.3 * Rey powr 0.62 * Pr powr 0.37
      else 0.027 * Rey powr 0.805 * Pr powr 0.37)"

definition Nu_mix_spec :: "AmbientConditions \<Rightarrow> real \<Rightarrow> real" where
  "Nu_mix_spec a D_h =
     (churchill_chu (grashof (T_air a) D_h * PR_AIR) PR_AIR ^ 3
        + zukauskas (reynolds (v_wind a) D_h) PR_AIR ^ 3) powr (1 / 3)"

definition h_spec :: "AmbientConditions \<Rightarrow> real \<Rightarrow> real" where
  "h_spec a D_h = Nu_mix_spec a D_h * K_AIR / D_h"

text \<open>
  One regime of the forced correlation alone, with fixed constants \<open>C\<close> and \<open>m\<close>,
  as a function of the wind speed; and the wind speed at which the Reynolds number
  reaches the threshold.
\<close>

definition h_branch :: "real \<Rightarrow> real \<Rightarrow> real \<Rightarrow> real \<Rightarrow> real \<Rightarrow> real" where
  "h_branch C m T D_h v =
     (churchill_chu (grashof T D_h * PR_AIR) PR_AIR ^ 3
        + (C * reynolds v D_h powr m * PR_AIR powr 0.37) ^ 3) powr (1 / 3) * K_AIR / D_h"

definition threshold_wind :: "real \<Rightarrow> real" where
  "threshold_wind D_h = 100000 * MU_AIR / (RHO_GNG * D_h)"

text \<open>
  The finned diameter in metres, as the double the program computes. The steady flow
  for a given overall coefficient \<open>U\<close> and the thermal time constant for a given
  coefficient \<open>h\<close>, step by step as the specification lists them; the latent heat is
  510 kJ/kg and the tube count is the product of the tubes in X and in Y.
\<close>

definition finned_diameter_m :: "Gasifier \<Rightarrow> real" where
  "finned_diameter_m self =
     round_double ((tube_od_mm (geom self) + 2 * fin_height_mm (geom self)) / 1000)"

definition capacity_spec :: "real \<Rightarrow> Gasifier \<Rightarrow> real" where
  "capacity_spec U self =
     (let area_per_tube = area_per_meter (geom self) * (tube_length_mm self / 1000);
          Q = U * area_per_tube * (T_air (ambient self) - (- 160));
          mass_flow = Q / 510000;
          tube_count = tubes_x (module self) * tubes_y (module self)
      in mass_flow * of_int tube_count * 3600 / 0.693)"

definition tau_spec :: "real \<Rightarrow> Gasifier \<Rightarrow> real" where
  "tau_spec h self =
     (let area_per_tube = area_per_meter (geom self) * (tube_length_mm self / 1000);
          tube_count = tubes_x (module self) * tubes_y (module self);
          aluminum_mass = area_per_tube * 0.002 * 2700 * of_int tube_count;
          Cth = aluminum_mass * 900;
          total_area = area_per_tube * of_int tube_count
      in Cth / (h * total_area) / 3600)"

text \<open>
  An input in the ranges of the user interface at which the exact quotient for the
  finned diameter, \<open>0.6\<close>, would put the Reynolds number on the threshold: 40 mm
  tubes, fins of 280 mm, wind 3 m/s.
\<close>

definition threshold_gasif :: Gasifier where
  "threshold_gasif =
     \<lparr> geom = \<lparr> tube_od_mm = 40, fin_height_mm = 280, fins_per_tube = 12,
                fin_efficiency = 0.85 \<rparr>,
       module = \<lparr> tubes_x = 9, tubes_y = 8, spacing_x_mm = 215, spacing_y_mm = 300 \<rparr>,
       tube_length_mm = 4600,
       ambient = \<lparr> T_air = 15, v_wind = 3 \<rparr> \<rparr>"

section \<open>Rounding to a double\<close>

lemma round_half_even_error: "\<bar>of_int (round_half_even y) - y\<bar> \<le> 1 / 2"
proof -
  have "of_int \<lfloor>y\<rfloor> \<le> y" "y < of_int \<lfloor>y\<rfloor> + 1"
    by linarith+
  then show ?thesis
    unfolding round_half_even_def Let_def by (auto simp: abs_le_iff)
qed

lemma round_double_ulp:
  assumes "0 < x"
  shows "0 < (2 :: real) powr (of_int \<lfloor>log 2 x\<rfloor> - 52)"
    and "(2 :: real) powr (of_int \<lfloor>log 2 x\<rfloor> - 52) * 2 ^ 52 \<le> x"
proof -
  have "2 powr of_int \<lfloor>log 2 x\<rfloor> \<le> x"
    using floor_log_eq_powr_iff [of x 2 "\<lfloor>log 2 x\<rfloor>"] assms by simp
  moreover have "2 powr (of_int \<lfloor>log 2 x\<rfloor> - 52) * 2 ^ 52 = (2 :: real) powr of_int \<lfloor>log 2 x\<rfloor>"
    by (simp add: powr_diff)
  ultimately show "(2 :: real) powr (of_int \<lfloor>log 2 x\<rfloor> - 52) * 2 ^ 52 \<le> x"
    by simp
  show "0 < (2 :: real) powr (of_int \<lfloor>log 2 x\<rfloor> - 52)"
    by simp
qed

lemma round_double_error:
  assumes "0 < x"
  shows "\<bar>round_double x - x\<bar> \<le> x / 2 ^ 53"
proof -
  let ?u = "(2 :: real) powr (of_int \<lfloor>log 2 x\<rfloor> - 52)"
  note u = round_double_ulp [OF assms]
  have "round_double x - x = (of_int (round_half_even (x / ?u)) - x / ?u) * ?u"
    using assms u(1) by (simp add: round_double_def Let_def algebra_simps)
  then have "\<bar>round_double x - x\<bar> = \<bar>of_int (round_half_even (x / ?u)) - x / ?u\<bar> * ?u"
    using u(1) by (simp add: abs_mult)
  also have "\<dots> \<le> 1 / 2 * ?u"
    using u(1) round_half_even_error [of "x / ?u"] by (intro mult_right_mono) simp_all
  also have "\<dots> \<le> x / 2 ^ 53"
    using u(2) by (simp add: field_simps)
  finally show ?thesis .
qed

lemma round_double_pos:
  assumes "0 < x"
  shows "0 < round_double x"
proof -
  have "x / 2 ^ 53 < x"
    using assms by (simp add: field_simps)
  then show ?thesis
    using round_double_error [OF assms] by linarith
qed

lemma round_double_six_tenths: "round_double (3 / 5) = 5404319552844595 / 2 ^ 53"
proof -
  have "\<lfloor>log 2 (3 / 5 :: real)\<rfloor> = - 1"
    by (subst floor_log_eq_powr_iff) (simp_all add: powr_minus)
  moreover have "round_half_even (3 / 5 * 2 ^ 53) = 5404319552844595"
    by (simp add: round_half_even_def Let_def)
  ultimately show ?thesis
    by (simp add: round_double_def Let_def powr_minus powr_diff field_simps)
qed

section \<open>Arithmetic on floats\<close>

lemma py_add_fl: "py_add (fl x) (fl y) = fl (x + y)"
  by (simp add: py_add_def fl_def)

lemma py_mul_fl: "py_mul (fl x) (fl y) = fl (x * y)"
  by (simp add: py_mul_def fl_def)

lemma py_div_fl: "y \<noteq> 0 \<Longrightarrow> py_div (fl x) (fl y) = fl (x / y)"
  by (simp add: py_div_def fl_def)

lemma py_powi_fl: "py_powi (fl x) k = fl (x ^ k)"
  by (simp add: fl_def)

lemma py_pow_fl: "0 \<le> x \<Longrightarrow> py_pow (fl x) y = fl (x powr y)"
  by (simp add: fl_def)

subsection \<open>Operations that cannot raise\<close>

lemma not_isl_fl: "\<not> isl (fl x)"
  by (simp add: fl_def)

lemma not_isl_add: "\<not> isl a \<Longrightarrow> \<not> isl b \<Longrightarrow> \<not> isl (py_add a b)"
proof -
  have "\<not> isl (v_add u v)" for u v
    by (cases u; cases v) simp_all
  then show "\<not> isl a \<Longrightarrow> \<not> isl b \<Longrightarrow> \<not> isl (py_add a b)"
    by (cases a; cases b) (simp_all add: py_add_def)
qed

lemma not_isl_mul: "\<not> isl a \<Longrightarrow> \<not> isl b \<Longrightarrow> \<not> isl (py_mul a b)"
proof -
  have "\<not> isl (v_mul u v)" for u v
    by (cases u; cases v) simp_all
  then show "\<not> isl a \<Longrightarrow> \<not> isl b \<Longrightarrow> \<not> isl (py_mul a b)"
    by (cases a; cases b) (simp_all add: py_mul_def)
qed

lemma not_isl_powi: "\<not> isl a \<Longrightarrow> \<not> isl (py_powi a k)"
  by (cases "(a, k)" rule: py_powi.cases) auto

lemma not_isl_pow: "\<not> isl a \<Longrightarrow> \<not> isl (py_pow a y)"
  by (cases "(a, y)" rule: py_pow.cases) auto

lemma not_isl_div: "\<not> isl a \<Longrightarrow> d \<noteq> 0 \<Longrightarrow> \<not> isl (py_div a (fl d))"
proof -
  assume d: "d \<noteq> 0"
  then have "\<not> isl (v_div u (Float d))" for u
    by (cases u) simp_all
  then show "\<not> isl a \<Longrightarrow> \<not> isl (py_div a (fl d))"
    by (cases a) (simp_all add: py_div_def fl_def)
qed

lemma py_div_by_zero: "\<not> isl a \<Longrightarrow> py_div a (fl 0) = Inl ZeroDivisionError"
proof (cases a)
  case (Inr u)
  then show ?thesis
    by (cases u) (simp_all add: py_div_def fl_def)
qed simp

lemma case_prod_cases:
  assumes "\<And>C m. P (f C m)"
  shows "P (case p of (C, m) \<Rightarrow> f C m)"
  by (cases p) (simp add: assms)

section \<open>The heat-transfer coefficient\<close>

lemma grashof_nonneg: "0 < D \<Longrightarrow> - 160 \<le> T \<Longrightarrow> 0 \<le> grashof T D"
  by (simp add: grashof_def MU_AIR_def)

lemma reynolds_nonneg: "0 < D \<Longrightarrow> 0 \<le> v \<Longrightarrow> 0 \<le> reynolds v D"
  by (simp add: reynolds_def MU_AIR_def RHO_GNG_def)

lemma churchill_chu_pos: "0 < churchill_chu Ra Pr"
proof -
  have "0 < 0.825 + 0.387 * Ra powr (1 / 6) / (1 + (0.492 / Pr) powr (9 / 16)) powr (8 / 27)"
    by (intro add_pos_nonneg) simp_all
  then show ?thesis
    unfolding churchill_chu_def by (rule zero_less_power)
qed

lemma zukauskas_nonneg: "0 \<le> zukauskas Rey Pr"
  by (simp add: zukauskas_def)

lemma Nu_mix_spec_pos: "0 < Nu_mix_spec a D_h"
proof -
  have "0 < churchill_chu (grashof (T_air a) D_h * PR_AIR) PR_AIR ^ 3
        + zukauskas (reynolds (v_wind a) D_h) PR_AIR ^ 3"
    by (intro add_pos_nonneg zero_less_power zero_le_power churchill_chu_pos zukauskas_nonneg)
  then show ?thesis
    by (simp add: Nu_mix_spec_def)
qed

lemma h_spec_pos: "0 < D_h \<Longrightarrow> 0 < h_spec a D_h"
  using Nu_mix_spec_pos [of a D_h] by (simp add: h_spec_def K_AIR_def)

lemma churchill_chu_divisor:
  "py_pow (py_add (fl 1) (py_pow (fl (0.492 / PR_AIR)) (9 / 16))) (8 / 27)
     = fl ((1 + (0.492 / PR_AIR) powr (9 / 16)) powr (8 / 27))"
proof -
  have "py_pow (fl (0.492 / PR_AIR)) (9 / 16) = fl ((0.492 / PR_AIR) powr (9 / 16))"
    by (rule py_pow_fl) (simp add: PR_AIR_def)
  moreover have "py_pow (fl (1 + (0.492 / PR_AIR) powr (9 / 16))) (8 / 27)
              = fl ((1 + (0.492 / PR_AIR) powr (9 / 16)) powr (8 / 27))"
    by (rule py_pow_fl) (simp add: add_nonneg_nonneg)
  ultimately show ?thesis
    by (simp add: py_add_fl)
qed

lemma churchill_chu_divisor_nonzero:
  "(1 + (0.492 / PR_AIR) powr (9 / 16)) powr (8 / 27) \<noteq> 0"
  by (simp add: add_nonneg_eq_0_iff)

text \<open>
  With a positive diameter, a wind speed that is not negative and air no colder than
  the reference, every power has a base that is not negative and the result is a float.
\<close>

lemma h_coefficient_float:
  assumes D: "0 < D_h" and v: "0 \<le> v_wind a" and T: "- 160 \<le> T_air a"
  shows "h_coefficient a D_h = fl (h_spec a D_h)"
proof -
  have Gr: "9.81 * (1 / 273.15) * (T_air a + 273.15 - (- 160 + 273.15)) * D_h ^ 3 / MU_AIR ^ 2
              = grashof (T_air a) D_h"
    by (simp add: grashof_def)
  have Ra: "0 \<le> grashof (T_air a) D_h * PR_AIR"
    using grashof_nonneg [OF D T] by (simp add: PR_AIR_def)
  have Re: "0 \<le> reynolds (v_wind a) D_h"
    using reynolds_nonneg [OF D v] .
  have den: "(1 + (0.492 / PR_AIR) powr (9 / 16)) powr (8 / 27) \<noteq> 0"
    by (simp add: add_nonneg_eq_0_iff)
  have sum: "0 \<le> churchill_chu (grashof (T_air a) D_h * PR_AIR) PR_AIR ^ 3
        + zukauskas (reynolds (v_wind a) D_h) PR_AIR ^ 3"
    by (intro add_nonneg_nonneg zero_le_power less_imp_le [OF churchill_chu_pos] zukauskas_nonneg)
  have c1: "py_pow (fl (0.492 / PR_AIR)) (9 / 16) = fl ((0.492 / PR_AIR) powr (9 / 16))"
    by (rule py_pow_fl) (simp add: PR_AIR_def)
  have c2: "py_pow (fl (1 + (0.492 / PR_AIR) powr (9 / 16))) (8 / 27)
              = fl ((1 + (0.492 / PR_AIR) powr (9 / 16)) powr (8 / 27))"
    by (rule py_pow_fl) (simp add: add_nonneg_nonneg)
  have c3: "py_pow (fl (grashof (T_air a) D_h * PR_AIR)) (1 / 6)
              = fl ((grashof (T_air a) D_h * PR_AIR) powr (1 / 6))"
    by (rule py_pow_fl) (rule Ra)
  have c4: "py_pow (fl (reynolds (v_wind a) D_h)) m = fl (reynolds (v_wind a) D_h powr m)" for m
    by (rule py_pow_fl) (rule Re)
  have c5: "py_pow (fl PR_AIR) 0.37 = fl (PR_AIR powr 0.37)"
    by (rule py_pow_fl) (simp add: PR_AIR_def)
  have c6: "py_pow (fl (churchill_chu (grashof (T_air a) D_h * PR_AIR) PR_AIR ^ 3
        + zukauskas (reynolds (v_wind a) D_h) PR_AIR ^ 3)) (1 / 3)
     = fl (Nu_mix_spec a D_h)"
    unfolding Nu_mix_spec_def by (rule py_pow_fl) (rule sum)
  have nat: "py_powi (py_add (fl 0.825)
               (py_div (py_mul (fl 0.387) (py_pow (fl (grashof (T_air a) D_h * PR_AIR)) (1 / 6)))
                  (py_pow (py_add (fl 1) (py_pow (fl (0.492 / PR_AIR)) (9 / 16))) (8 / 27)))) 2
             = fl (churchill_chu (grashof (T_air a) D_h * PR_AIR) PR_AIR)"
    unfolding c1 c3 py_add_fl c2 py_mul_fl py_div_fl [OF den] py_powi_fl churchill_chu_def ..
  have zuk: "py_mul (py_mul (fl C) (py_pow (fl (reynolds (v_wind a) D_h)) m))
                 (py_pow (fl PR_AIR) 0.37)
               = fl (C * reynolds (v_wind a) D_h powr m * PR_AIR powr 0.37)" for C m
    unfolding c4 c5 py_mul_fl ..
  have fin: "py_div (py_mul (py_pow (py_add
             (py_powi (fl (churchill_chu (grashof (T_air a) D_h * PR_AIR) PR_AIR)) 3)
             (py_powi (fl (zukauskas (reynolds (v_wind a) D_h) PR_AIR)) 3)) (1 / 3)) (fl K_AIR))
            (fl D_h) = fl (h_spec a D_h)"
    unfolding py_powi_fl py_add_fl c6 py_mul_fl h_spec_def
    using D by (simp add: py_div_fl)
  show ?thesis
  proof (cases "reynolds (v_wind a) D_h < 100000")
    case True
    then have z: "zukauskas (reynolds (v_wind a) D_h) PR_AIR
        = 0.3 * reynolds (v_wind a) D_h powr 0.62 * PR_AIR powr 0.37"
      by (simp add: zukauskas_def)
    show ?thesis
      unfolding h_coefficient_def Let_def Gr nat reynolds_def [symmetric]
      using True by (simp only: if_True split_conv zuk z [symmetric] fin of_nat_numeral)
  next
    case False
    then have z: "zukauskas (reynolds (v_wind a) D_h) PR_AIR
        = 0.027 * reynolds (v_wind a) D_h powr 0.805 * PR_AIR powr 0.37"
      by (simp add: zukauskas_def)
    show ?thesis
      unfolding h_coefficient_def Let_def Gr nat reynolds_def [symmetric]
      using False by (simp only: if_False split_conv zuk z [symmetric] fin of_nat_numeral)
  qed
qed

text \<open>
  Whatever the inputs, only the last division can raise.
\<close>

lemma Nu_mix_no_raise:
  "\<not> isl (py_mul (py_pow (py_add
      (py_powi (py_powi (py_add (fl c0)
         (py_div (py_mul (fl c1) (py_pow (fl Ra) e1))
            (py_pow (py_add (fl 1) (py_pow (fl (0.492 / PR_AIR)) (9 / 16))) (8 / 27)))) 2) 3)
      (py_powi (py_mul (py_mul (fl C) (py_pow (fl Rey) m)) (py_pow (fl Pr) e2)) 3)) e3) (fl k))"
  unfolding churchill_chu_divisor
  by (intro not_isl_mul not_isl_pow not_isl_add not_isl_powi not_isl_fl
      not_isl_div churchill_chu_divisor_nonzero)

lemma h_coefficient_no_raise:
  assumes "D_h \<noteq> 0"
  shows "\<not> isl (h_coefficient a D_h)"
  unfolding h_coefficient_def Let_def of_nat_numeral
  by (rule case_prod_cases [where P = "\<lambda>r. \<not> isl r"])
    (rule not_isl_div [OF Nu_mix_no_raise assms])

lemma h_coefficient_zero: "h_coefficient a 0 = Inl ZeroDivisionError"
  unfolding h_coefficient_def Let_def of_nat_numeral
  by (rule case_prod_cases [where P = "\<lambda>r. r = Inl ZeroDivisionError"])
    (rule py_div_by_zero [OF Nu_mix_no_raise])

subsection \<open>The two regimes of the forced correlation\<close>

lemma reynolds_threshold: "0 < D_h \<Longrightarrow> reynolds (threshold_wind D_h) D_h = 100000"
  by (simp add: reynolds_def threshold_wind_def RHO_GNG_def MU_AIR_def)

lemma reynolds_below_threshold:
  "0 < D_h \<Longrightarrow> v < threshold_wind D_h \<Longrightarrow> reynolds v D_h < 100000"
  by (simp add: reynolds_def threshold_wind_def RHO_GNG_def MU_AIR_def field_simps)

lemma h_coefficient_branches:
  assumes "0 < D_h" and "- 160 \<le> T" and "0 \<le> v"
  shows "h_coefficient \<lparr> T_air = T, v_wind = v \<rparr> D_h =
           fl (if reynolds v D_h < 100000 then h_branch 0.3 0.62 T D_h v
               else h_branch 0.027 0.805 T D_h v)"
  using h_coefficient_float [of D_h "\<lparr> T_air = T, v_wind = v \<rparr>"] assms
  by (simp add: h_spec_def Nu_mix_spec_def zukauskas_def h_branch_def)

lemma h_branch_continuous:
  assumes "0 < D_h" and "0 < m" and "0 \<le> C"
  shows "continuous_on {0..} (h_branch C m T D_h)"
proof -
  have r: "continuous_on {0..} (\<lambda>v. reynolds v D_h powr m)"
    unfolding reynolds_def
    using assms by (intro continuous_on_powr' continuous_intros)
      (auto simp: RHO_GNG_def MU_AIR_def)
  have pos: "0 < churchill_chu (grashof T D_h * PR_AIR) PR_AIR ^ 3
        + (C * reynolds v D_h powr m * PR_AIR powr 0.37) ^ 3" for v
    using assms(3)
    by (intro add_pos_nonneg zero_less_power zero_le_power churchill_chu_pos mult_nonneg_nonneg)
      simp_all
  show ?thesis
    unfolding h_branch_def
    using pos assms(1)
    by (intro continuous_intros r) (auto simp: less_imp_neq [THEN not_sym])
qed

lemma h_branch_isCont:
  assumes "0 < D_h" and "0 < m" and "0 \<le> C" and "0 < v"
  shows "isCont (h_branch C m T D_h) v"
proof -
  have "continuous_on {0<..} (h_branch C m T D_h)"
    using h_branch_continuous [OF assms(1-3)] by (rule continuous_on_subset) auto
  then show ?thesis
    using assms(4) by (simp add: continuous_on_eq_continuous_at)
qed

text \<open>
  At the threshold the constants of the upper regime give a forced Nusselt number
  at most nine tenths of the one of the lower regime: \<open>100000 powr 0.185 \<le> 10\<close>.
\<close>

lemma zukauskas_jump:
  "(0.027 :: real) * 100000 powr 0.805 < 0.3 * 100000 powr 0.62"
proof -
  have "(100000 :: real) powr 0.185 \<le> 100000 powr (1 / 5)"
    by (rule powr_mono) simp_all
  also have "(100000 :: real) powr (1 / 5) = (10 powr 5) powr (1 / 5)"
    by simp
  also have "\<dots> = 10"
    by (simp only: powr_powr) simp
  finally have le: "(100000 :: real) powr 0.185 \<le> 10" .
  have "(100000 :: real) powr 0.805 = 100000 powr 0.62 * 100000 powr 0.185"
    by (simp add: powr_add [symmetric])
  also have "\<dots> \<le> 100000 powr 0.62 * 10"
    using le by (intro mult_left_mono) simp_all
  finally have "(0.027 :: real) * 100000 powr 0.805 \<le> 0.27 * 100000 powr 0.62"
    by simp
  also have "\<dots> < 0.3 * 100000 powr 0.62"
    by simp
  finally show ?thesis .
qed

lemma h_branch_jump:
  assumes "0 < D_h"
  shows "h_branch 0.027 0.805 T D_h (threshold_wind D_h)
           < h_branch 0.3 0.62 T D_h (threshold_wind D_h)"
proof -
  have P: "0 < PR_AIR powr 0.37"
    by (simp add: PR_AIR_def)
  have "0.027 * 100000 powr 0.805 * PR_AIR powr 0.37
          < 0.3 * 100000 powr 0.62 * PR_AIR powr 0.37"
    using zukauskas_jump P by (rule mult_strict_right_mono)
  moreover have "0 \<le> 0.027 * (100000 :: real) powr 0.805 * PR_AIR powr 0.37"
    by simp
  ultimately have "(0.027 * 100000 powr 0.805 * PR_AIR powr 0.37) ^ 3
          < (0.3 * 100000 powr 0.62 * PR_AIR powr 0.37) ^ 3"
    by (rule power_strict_mono) simp
  then have "churchill_chu (grashof T D_h * PR_AIR) PR_AIR ^ 3
               + (0.027 * 100000 powr 0.805 * PR_AIR powr 0.37) ^ 3
             < churchill_chu (grashof T D_h * PR_AIR) PR_AIR ^ 3
               + (0.3 * 100000 powr 0.62 * PR_AIR powr 0.37) ^ 3"
    by simp
  moreover have "0 \<le> churchill_chu (grashof T D_h * PR_AIR) PR_AIR ^ 3
               + (0.027 * 100000 powr 0.805 * PR_AIR powr 0.37) ^ 3"
    by (intro add_nonneg_nonneg zero_le_power less_imp_le [OF churchill_chu_pos]) simp
  ultimately have "(churchill_chu (grashof T D_h * PR_AIR) PR_AIR ^ 3
               + (0.027 * 100000 powr 0.805 * PR_AIR powr 0.37) ^ 3) powr (1 / 3)
             < (churchill_chu (grashof T D_h * PR_AIR) PR_AIR ^ 3
               + (0.3 * 100000 powr 0.62 * PR_AIR powr 0.37) ^ 3) powr (1 / 3)"
    by (intro powr_less_mono2) simp_all
  then show ?thesis
    unfolding h_branch_def reynolds_threshold [OF assms]
    using assms by (simp add: K_AIR_def divide_strict_right_mono)
qed

text \<open>
  A function that describes the program for every wind speed agrees with the lower
  regime on the left of the threshold; were it continuous there, its value at the
  threshold would be the one of the lower regime.
\<close>

lemma no_continuous_description:
  assumes D: "0 < D_h" and T: "- 160 \<le> T"
    and c: "isCont f (threshold_wind D_h)"
    and f: "\<forall>v\<ge>0. h_coefficient \<lparr> T_air = T, v_wind = v \<rparr> D_h = fl (f v)"
  shows False
proof -
  let ?v0 = "threshold_wind D_h"
  let ?lo = "h_branch 0.3 0.62 T D_h"
  let ?hi = "h_branch 0.027 0.805 T D_h"
  have v0: "0 < ?v0"
    using D by (simp add: threshold_wind_def RHO_GNG_def MU_AIR_def)
  have eq: "f v = (if reynolds v D_h < 100000 then ?lo v else ?hi v)" if "0 \<le> v" for v
    using f h_coefficient_branches [OF D T that] that by (simp add: fl_def)
  have at0: "f ?v0 = ?hi ?v0"
    using eq [of ?v0] v0 reynolds_threshold [OF D] by simp
  have below: "f v = ?lo v" if "0 < v" "v < ?v0" for v
    using eq [of v] that reynolds_below_threshold [OF D that(2)] by simp
  have ev: "eventually (\<lambda>v. ?lo v = f v) (at_left ?v0)"
    unfolding eventually_at_left_field
    using v0 below by (intro exI [of _ 0]) auto
  have "isCont ?lo ?v0"
    using D _ _ v0 by (rule h_branch_isCont) simp_all
  then have "(?lo \<longlongrightarrow> ?lo ?v0) (at_left ?v0)"
    by (simp add: isCont_def filterlim_at_split)
  then have "(f \<longlongrightarrow> ?lo ?v0) (at_left ?v0)"
    using ev by (rule Lim_transform_eventually)
  moreover have "(f \<longlongrightarrow> f ?v0) (at_left ?v0)"
    using c by (simp add: isCont_def filterlim_at_split)
  ultimately have "?lo ?v0 = f ?v0"
    by (intro tendsto_unique [of "at_left ?v0" f]) simp_all
  then show False
    using at0 h_branch_jump [OF D, of T] by simp
qed

subsection \<open>A drop measured at two wind speeds\<close>

text \<open>
  At 15 degrees and a finned diameter of 0.428 m the threshold lies between the wind
  speeds 4.2 and 4.21 m/s. Rough bounds suffice: the forced Nusselt number falls to at
  most 0.91 of its value, and the natural one is below the forced one.
\<close>

lemma power_powr_inverse:
  "0 < x \<Longrightarrow> 0 < n \<Longrightarrow> (x ^ n) powr (1 / real n) = x"
  by (simp add: powr_realpow [symmetric] powr_powr)

lemma forced_drop:
  "(0.027 :: real) * reynolds 4.21 0.428 powr 0.805 \<le> 0.273 * reynolds 4.2 0.428 powr 0.62"
proof -
  let ?r1 = "reynolds 4.2 0.428"
  let ?r2 = "reynolds 4.21 0.428"
  have r1: "1 \<le> ?r1" and r2: "1 \<le> ?r2" and r21: "?r2 \<le> 1.0025 * ?r1"
    and r2u: "?r2 \<le> 10.01 ^ 5"
    by (simp_all add: reynolds_def RHO_GNG_def MU_AIR_def power_divide)
  have "?r2 powr 0.185 \<le> ?r2 powr (1 / 5)"
    using r2 by (intro powr_mono) simp_all
  also have "\<dots> \<le> (10.01 ^ 5) powr (1 / 5)"
    using r2 r2u by (intro powr_mono2) simp_all
  also have "\<dots> = 10.01"
    using power_powr_inverse [of "10.01" 5] by simp
  finally have a: "?r2 powr 0.185 \<le> 10.01" .
  have "?r2 powr 0.62 \<le> (1.0025 * ?r1) powr 0.62"
    using r2 r21 by (intro powr_mono2) simp_all
  also have "\<dots> = 1.0025 powr 0.62 * ?r1 powr 0.62"
    by (rule powr_mult)
  also have "\<dots> \<le> 1.0025 powr 1 * ?r1 powr 0.62"
    by (intro mult_right_mono powr_mono) simp_all
  finally have b: "?r2 powr 0.62 \<le> 1.0025 * ?r1 powr 0.62"
    by simp
  have "?r2 powr 0.805 = ?r2 powr 0.62 * ?r2 powr 0.185"
    by (simp add: powr_add [symmetric])
  also have "\<dots> \<le> (1.0025 * ?r1 powr 0.62) * 10.01"
    using a b by (intro mult_mono) simp_all
  finally have "?r2 powr 0.805 \<le> 1.0025 * 10.01 * ?r1 powr 0.62"
    by simp
  then have "0.027 * ?r2 powr 0.805 \<le> 0.027 * (1.0025 * 10.01 * ?r1 powr 0.62)"
    by (intro mult_left_mono) simp_all
  also have "\<dots> \<le> 0.273 * ?r1 powr 0.62"
    by simp
  finally show ?thesis .
qed

lemma forced_lower:
  "(970 :: real) \<le> reynolds 4.2 0.428 powr 0.62"
proof -
  let ?r1 = "reynolds 4.2 0.428"
  have r1: "1 \<le> ?r1" and r1l: "9.9 ^ 5 \<le> ?r1"
    by (simp_all add: reynolds_def RHO_GNG_def MU_AIR_def power_divide)
  have "(9.9 :: real) = (9.9 ^ 5) powr (1 / 5)"
    using power_powr_inverse [of "9.9" 5] by simp
  also have "\<dots> \<le> ?r1 powr (1 / 5)"
    using r1l by (intro powr_mono2) simp_all
  finally have "9.9 ^ 3 \<le> (?r1 powr (1 / 5)) ^ 3"
    by (intro power_mono) simp_all
  also have "\<dots> = ?r1 powr (3 / 5)"
    by (simp add: powr_powr flip: powr_numeral)
  also have "\<dots> \<le> ?r1 powr 0.62"
    using r1 by (intro powr_mono) simp_all
  finally show ?thesis
    by (simp add: power_divide)
qed

lemma prandtl_lower: "0.71 \<le> PR_AIR powr 0.37"
proof -
  have "(0.71 :: real) powr 1 \<le> 0.71 powr 0.37"
    by (intro powr_mono') simp_all
  then show ?thesis
    by (simp add: PR_AIR_def)
qed

lemma natural_upper:
  "churchill_chu (grashof 15 0.428 * PR_AIR) PR_AIR \<le> 185"
proof -
  let ?Ra = "grashof 15 0.428 * PR_AIR"
  have Ra: "0 \<le> ?Ra" "?Ra \<le> 33 ^ 6"
    by (simp_all add: grashof_def MU_AIR_def PR_AIR_def power_divide)
  have "?Ra powr (1 / 6) \<le> (33 ^ 6) powr (1 / 6)"
    using Ra by (intro powr_mono2) simp_all
  also have "\<dots> = 33"
    using power_powr_inverse [of 33 6] by simp
  finally have p: "?Ra powr (1 / 6) \<le> 33" .
  have d: "1 \<le> (1 + (0.492 / PR_AIR) powr (9 / 16)) powr (8 / 27)"
    by (intro ge_one_powr_ge_zero) simp_all
  have "0.387 * ?Ra powr (1 / 6) / (1 + (0.492 / PR_AIR) powr (9 / 16)) powr (8 / 27)
          \<le> 0.387 * 33 / 1"
    using p d by (intro frac_le mult_left_mono) simp_all
  then have "0.825 + 0.387 * ?Ra powr (1 / 6) / (1 + (0.492 / PR_AIR) powr (9 / 16)) powr (8 / 27)
          \<le> 13.596"
    by simp
  then have "(0.825 + 0.387 * ?Ra powr (1 / 6) / (1 + (0.492 / PR_AIR) powr (9 / 16)) powr (8 / 27)) ^ 2
          \<le> 13.596 ^ 2"
    by (intro power_mono add_nonneg_nonneg) simp_all
  also have "\<dots> \<le> (185 :: real)"
    by (simp add: power_divide)
  finally show ?thesis
    by (simp add: churchill_chu_def)
qed

lemma blend_bound:
  fixes a b c :: real
  assumes "a \<le> b" and "c \<le> 753571 / 1000000 * b" and "0 \<le> a"
  shows "a + c \<le> 884736 / 1000000 * (a + b)"
proof -
  have "115264 / 1000000 * a \<le> 115264 / 1000000 * b"
    using assms(1) by (intro mult_left_mono) simp_all
  also have "\<dots> \<le> 131165 / 1000000 * b"
    using assms(1,3) by (intro mult_right_mono) simp_all
  finally have "a + 753571 / 1000000 * b \<le> 884736 / 1000000 * (a + b)"
    by (simp add: algebra_simps)
  then show ?thesis
    using assms(2) by simp
qed

lemma h_spec_drop:
  "h_spec \<lparr> T_air = 15, v_wind = 4.21 \<rparr> 0.428
     \<le> 0.96 * h_spec \<lparr> T_air = 15, v_wind = 4.2 \<rparr> 0.428"
proof -
  let ?A = "churchill_chu (grashof 15 0.428 * PR_AIR) PR_AIR"
  let ?z1 = "0.3 * reynolds 4.2 0.428 powr 0.62 * PR_AIR powr 0.37"
  let ?z2 = "0.027 * reynolds 4.21 0.428 powr 0.805 * PR_AIR powr 0.37"
  have r: "reynolds 4.2 0.428 < 100000" "\<not> reynolds 4.21 0.428 < 100000"
    by (simp_all add: reynolds_def RHO_GNG_def MU_AIR_def)
  have P: "0 \<le> PR_AIR powr 0.37"
    by simp
  have "?z2 \<le> 0.273 * reynolds 4.2 0.428 powr 0.62 * PR_AIR powr 0.37"
    using forced_drop P by (rule mult_right_mono)
  then have z21: "?z2 \<le> 0.91 * ?z1"
    by simp
  have "(185 :: real) \<le> 0.3 * 970 * 0.71"
    by simp
  also have "\<dots> \<le> ?z1"
    using forced_lower prandtl_lower by (intro mult_mono) simp_all
  finally have "?A \<le> ?z1"
    using natural_upper by (rule order_trans [rotated])
  then have a: "?A ^ 3 \<le> ?z1 ^ 3"
    using churchill_chu_pos [of "grashof 15 0.428 * PR_AIR" PR_AIR] by (intro power_mono) simp_all
  have "?z2 ^ 3 \<le> (0.91 * ?z1) ^ 3"
    using z21 by (intro power_mono) simp_all
  also have "\<dots> = 753571 / 1000000 * ?z1 ^ 3"
    by (simp add: power_mult_distrib power_divide)
  finally have b: "?z2 ^ 3 \<le> 753571 / 1000000 * ?z1 ^ 3" .
  have c: "0 \<le> ?A ^ 3" "0 \<le> ?z2 ^ 3"
    using churchill_chu_pos [of "grashof 15 0.428 * PR_AIR" PR_AIR] by simp_all
  have "?A ^ 3 + ?z2 ^ 3 \<le> 884736 / 1000000 * (?A ^ 3 + ?z1 ^ 3)"
    using a b c(1) by (rule blend_bound)
  then have "(?A ^ 3 + ?z2 ^ 3) powr (1 / 3) \<le> (0.96 ^ 3 * (?A ^ 3 + ?z1 ^ 3)) powr (1 / 3)"
    using c by (intro powr_mono2) (simp_all add: power_divide)
  also have "\<dots> = (0.96 ^ 3) powr (1 / 3) * (?A ^ 3 + ?z1 ^ 3) powr (1 / 3)"
    by (rule powr_mult)
  also have "(0.96 ^ 3) powr (1 / 3) = (0.96 :: real)"
    using power_powr_inverse [of "0.96" 3] by simp
  finally have "(?A ^ 3 + ?z2 ^ 3) powr (1 / 3) * (K_AIR / 0.428)
                  \<le> 0.96 * (?A ^ 3 + ?z1 ^ 3) powr (1 / 3) * (K_AIR / 0.428)"
    by (intro mult_right_mono) (simp_all add: K_AIR_def)
  then show ?thesis
    using r by (simp add: h_spec_def Nu_mix_spec_def zukauskas_def)
qed

section \<open>The gasifier\<close>

lemma area_per_meter_pos:
  assumes "valid_geometry g"
  shows "0 < area_per_meter g"
proof -
  have "0 < pi * (tube_od_mm g / 1000)"
    using assms by (simp add: valid_geometry_def)
  moreover have "0 \<le> fin_efficiency g *
      (of_int (fins_per_tube g) * (2 * pi * (tube_od_mm g / 1000) * fin_height_mm g / 1000))"
    using assms by (simp add: valid_geometry_def)
  ultimately show ?thesis
    unfolding area_per_meter_def Let_def by (rule add_pos_nonneg)
qed

lemma finned_diameter_pos: "valid_geometry (geom self) \<Longrightarrow> 0 < finned_diameter_m self"
  unfolding finned_diameter_m_def
  by (rule round_double_pos) (simp add: valid_geometry_def add_pos_nonneg)

lemma h_coefficient_valid:
  assumes "valid_gasifier self"
  shows "h_coefficient (ambient self) (finned_diameter_m self)
         = fl (h_spec (ambient self) (finned_diameter_m self))"
proof -
  have "0 < finned_diameter_m self"
    using assms by (simp add: valid_gasifier_def finned_diameter_pos)
  moreover have "0 \<le> v_wind (ambient self)" "- 160 \<le> T_air (ambient self)"
    using assms by (simp_all add: valid_gasifier_def valid_ambient_def)
  ultimately show ?thesis
    by (rule h_coefficient_float)
qed

lemma tube_count_pos:
  assumes "valid_gasifier self"
  shows "0 < (of_int (tubes_x (module self) * tubes_y (module self)) :: real)"
proof -
  have "0 < tubes_x (module self)" "0 < tubes_y (module self)"
    using assms by (simp_all add: valid_gasifier_def valid_module_def)
  then show ?thesis
    by simp
qed

text \<open>
  The flow before the mode is looked at, for any diameter at which the coefficient is
  the float \<open>U\<close>.
\<close>

lemma flow_total_float:
  assumes "h_coefficient (ambient self) D_h = fl U"
  shows "py_div (py_mul (py_mul
           (py_div (py_mul (py_mul
              (h_coefficient (ambient self) D_h)
              (fl (area_per_meter (geom self) * (tube_length_mm self / 1000))))
              (fl (T_air (ambient self) - (- 160))))
              (fl (LATENT + CP_LNG * ((- 160) - (- 160)))))
           (fl (of_int (n_tubes (module self))))) (fl 3600)) (fl 0.693)
         = fl (capacity_spec U self)"
proof -
  have L: "LATENT + CP_LNG * ((- 160) - (- 160)) = 510000" "(510000 :: real) \<noteq> 0"
    by (simp_all add: LATENT_def)
  have c: "(0.693 :: real) \<noteq> 0"
    by simp
  show ?thesis
    unfolding assms py_mul_fl L(1) py_div_fl [OF L(2)] py_div_fl [OF c]
      capacity_spec_def Let_def n_tubes_def ..
qed

lemma capacity_steady_valid:
  assumes "valid_gasifier self" and "mode \<noteq> ''cold-start''"
  shows "capacity self mode
         = fl (capacity_spec (h_spec (ambient self) (finned_diameter_m self)) self)"
  unfolding capacity_def Let_def finned_diameter_m_def [symmetric]
    flow_total_float [OF h_coefficient_valid [OF assms(1)]]
  using assms(2) by (simp add: fl_def)

lemma thermal_time_constant_valid:
  assumes "valid_gasifier self"
  shows "thermal_time_constant self
         = fl (tau_spec (h_spec (ambient self) (finned_diameter_m self)) self)"
proof -
  have A: "0 < area_per_meter (geom self)"
    using assms by (simp add: valid_gasifier_def area_per_meter_pos)
  have L: "0 < tube_length_mm self / 1000"
    using assms by (simp add: valid_gasifier_def)
  have N: "0 < (of_int (n_tubes (module self)) :: real)"
    using tube_count_pos [OF assms] by (simp add: n_tubes_def)
  have H: "0 < h_spec (ambient self) (finned_diameter_m self)"
    using assms by (simp add: valid_gasifier_def finned_diameter_pos h_spec_pos)
  have hA: "h_spec (ambient self) (finned_diameter_m self) * area_per_meter (geom self)
              * (tube_length_mm self / 1000) * of_int (n_tubes (module self)) \<noteq> 0"
    using A L N H by simp
  have c: "(3600 :: real) \<noteq> 0"
    by simp
  have "thermal_time_constant self =
          fl (2700 * (area_per_meter (geom self) * 0.002) * (tube_length_mm self / 1000)
                * of_int (n_tubes (module self)) * 900
              / (h_spec (ambient self) (finned_diameter_m self) * area_per_meter (geom self)
                  * (tube_length_mm self / 1000) * of_int (n_tubes (module self)))
              / 3600)"
    unfolding thermal_time_constant_def Let_def finned_diameter_m_def [symmetric]
      h_coefficient_valid [OF assms] py_mul_fl py_div_fl [OF hA] py_div_fl [OF c] ..
  also have "\<dots> = fl (tau_spec (h_spec (ambient self) (finned_diameter_m self)) self)"
    by (simp add: tau_spec_def Let_def n_tubes_def mult_ac)
  finally show ?thesis .
qed

text \<open>
  The time constant without the areas: the exposed area, the tube length and the tube
  count are not zero and cancel.
\<close>

lemma tau_spec_cancel:
  assumes "valid_gasifier self"
  shows "tau_spec h self = (2700 * 0.002 * 900) / (3600 * h)"
proof -
  have A: "area_per_meter (geom self) \<noteq> 0"
    using assms area_per_meter_pos [of "geom self"] by (simp add: valid_gasifier_def)
  have L: "tube_length_mm self \<noteq> 0"
    using assms by (simp add: valid_gasifier_def)
  have N: "(of_int (tubes_x (module self) * tubes_y (module self)) :: real) \<noteq> 0"
    by (rule less_imp_neq [THEN not_sym, OF tube_count_pos [OF assms]])
  show ?thesis
    using A L N by (simp add: tau_spec_def Let_def field_simps)
qed

lemma summary_valid:
  assumes "valid_gasifier self"
  shows "summary self = Inr
     \<lparr> s_n_tubes = n_tubes (module self),
       s_area_total_m2 = of_int (round_half_even (area_per_meter (geom self)
           * (tube_length_mm self / 1000) * of_int (n_tubes (module self)) * 10 ^ 1)) / 10 ^ 1,
       s_capacity_Nm3_h = round_half_even
           (capacity_spec (h_spec (ambient self) (finned_diameter_m self)) self),
       s_footprint_x = round_half_even (fst (footprint_mm (module self)
           (tube_od_mm (geom self) + 2 * fin_height_mm (geom self)))),
       s_footprint_y = round_half_even (snd (footprint_mm (module self)
           (tube_od_mm (geom self) + 2 * fin_height_mm (geom self)))),
       s_footprint_z = tube_length_mm self,
       s_tau_h = of_int (round_half_even
           (tau_spec (h_spec (ambient self) (finned_diameter_m self)) self * 10 ^ 2)) / 10 ^ 2 \<rparr>"
proof -
  have "capacity self ''steady''
          = fl (capacity_spec (h_spec (ambient self) (finned_diameter_m self)) self)"
    using assms by (rule capacity_steady_valid) simp
  then show ?thesis
    unfolding summary_def thermal_time_constant_valid [OF assms]
    by (simp add: fl_def split_beta Let_def)
qed

lemma valid_example_gasif: "valid_gasifier example_gasif"
  by (simp add: valid_gasifier_def valid_geometry_def valid_module_def valid_ambient_def
      example_gasif_def)

lemma valid_threshold_gasif: "valid_gasifier threshold_gasif"
  by (simp add: valid_gasifier_def valid_geometry_def valid_module_def valid_ambient_def
      threshold_gasif_def)

subsection \<open>The rounded diameter at the threshold\<close>

text \<open>
  With 40 mm tubes and fins of 280 mm the exact quotient is \<open>3/5\<close>, and at 3 m/s its
  Reynolds number is the threshold itself. The double of \<open>3/5\<close> is smaller, the
  Reynolds number stays below the threshold, and the program computes with the
  constants of the lower regime.
\<close>

lemma threshold_gasif_diameter:
  "finned_diameter_m threshold_gasif = 5404319552844595 / 2 ^ 53"
proof -
  have "finned_diameter_m threshold_gasif = round_double (3 / 5)"
    by (simp add: finned_diameter_m_def threshold_gasif_def)
  then show ?thesis
    by (simp only: round_double_six_tenths)
qed

lemma threshold_gasif_reynolds:
  "reynolds 3 ((40 + 2 * 280) / 1000) = 100000"
  "reynolds 3 (finned_diameter_m threshold_gasif) < 100000"
  by (simp_all add: threshold_gasif_diameter reynolds_def RHO_GNG_def MU_AIR_def)

lemma threshold_gasif_capacity:
  "capacity threshold_gasif ''steady'' =
     fl (capacity_spec (h_branch 0.3 0.62 15 (finned_diameter_m threshold_gasif) 3)
           threshold_gasif)"
proof -
  have "h_spec (ambient threshold_gasif) (finned_diameter_m threshold_gasif)
          = h_branch 0.3 0.62 15 (finned_diameter_m threshold_gasif) 3"
    using threshold_gasif_reynolds(2)
    by (simp add: h_spec_def Nu_mix_spec_def zukauskas_def h_branch_def threshold_gasif_def)
  then show ?thesis
    using capacity_steady_valid [OF valid_threshold_gasif, of "''steady''"] by simp
qed

section \<open>The claims\<close>

subsection \<open>C1: exposed area per metre of tube\<close>

text \<open>
  C1, as the code has it: \<open>area_per_meter\<close> is the circumference of the bare tube plus
  the fin efficiency times the lateral area of all fins, where the lateral area of one
  fin is twice the circumference of the bare tube (\<open>pi\<close> times the outer diameter)
  times the fin height. The circumference is not taken at the fin radius.
\<close>

theorem area_per_meter_formula:
  "area_per_meter g =
     pi * (tube_od_mm g / 1000)
     + fin_efficiency g *
         (of_int (fins_per_tube g) * (2 * (pi * (tube_od_mm g / 1000)) * (fin_height_mm g / 1000)))"
  by (simp add: area_per_meter_def Let_def)

text \<open>
  C1, counterexample: for the default geometry (28 mm tube, 12 fins of 200 mm,
  efficiency 0.85) the area of the code differs from the area computed with the
  circumference at the fin radius.
\<close>

theorem area_per_meter_not_fin_radius:
  "area_per_meter \<lparr> tube_od_mm = 28, fin_height_mm = 200, fins_per_tube = 12,
                    fin_efficiency = 0.85 \<rparr>
   \<noteq> area_per_meter_spec \<lparr> tube_od_mm = 28, fin_height_mm = 200, fins_per_tube = 12,
                           fin_efficiency = 0.85 \<rparr>"
  by (simp add: area_per_meter_def area_per_meter_spec_def Let_def)

subsection \<open>C2: the mixed-convection coefficient\<close>

text \<open>
  C2: for \<open>D_h > 0\<close> (wind speed not negative, air no colder than the reference)
  \<open>h_coefficient\<close> returns \<open>Nu_mix * K_AIR / D_h\<close>, where \<open>Nu_mix\<close> is the cube root
  of the sum of the cubes of the Churchill-Chu Nusselt number at Rayleigh = Grashof
  times Prandtl and of the Zukauskas Nusselt number at the Reynolds number, the latter
  with \<open>(0.3, 0.62)\<close> below \<open>100000\<close> and \<open>(0.027, 0.805)\<close> from there on.
\<close>

theorem h_coefficient_formula:
  assumes "0 < D_h" and "0 \<le> v_wind a" and "- 160 \<le> T_air a"
  shows "h_coefficient a D_h =
     fl ((churchill_chu (grashof (T_air a) D_h * PR_AIR) PR_AIR ^ 3
          + zukauskas (reynolds (v_wind a) D_h) PR_AIR ^ 3) powr (1 / 3) * K_AIR / D_h)"
  using h_coefficient_float [OF assms] by (simp add: h_spec_def Nu_mix_spec_def)

text \<open>
  C2, witness: 15 degrees, wind 0.5 m/s, finned diameter 0.428 m.
\<close>

theorem h_coefficient_formula_witness:
  "(0::real) < 0.428 \<and> (0::real) \<le> 0.5 \<and> (- 160::real) \<le> 15 \<and>
   h_coefficient \<lparr> T_air = 15, v_wind = 0.5 \<rparr> 0.428 =
     fl ((churchill_chu (grashof 15 0.428 * PR_AIR) PR_AIR ^ 3
          + zukauskas (reynolds 0.5 0.428) PR_AIR ^ 3) powr (1 / 3) * K_AIR / 0.428)"
  using h_coefficient_formula [of "0.428" "\<lparr> T_air = 15, v_wind = 0.5 \<rparr>"] by simp

subsection \<open>C3: behaviour at the Reynolds threshold\<close>

text \<open>
  C3, as the code has it: for \<open>D_h > 0\<close> and air no colder than the reference, the
  coefficient as a function of the wind speed \<open>v \<ge> 0\<close> is one continuous function
  where the Reynolds number is below \<open>100000\<close> and another continuous function where
  it is at least \<open>100000\<close>; at the wind speed where the Reynolds number is exactly
  \<open>100000\<close> the second is strictly below the first. The coefficient is continuous on
  each side of the threshold and jumps down at it.
\<close>

theorem h_coefficient_piecewise_continuous:
  assumes "0 < D_h" and "- 160 \<le> T"
  shows "continuous_on {0..} (h_branch 0.3 0.62 T D_h) \<and>
         continuous_on {0..} (h_branch 0.027 0.805 T D_h) \<and>
         (\<forall>v\<ge>0. h_coefficient \<lparr> T_air = T, v_wind = v \<rparr> D_h =
                  fl (if reynolds v D_h < 100000 then h_branch 0.3 0.62 T D_h v
                      else h_branch 0.027 0.805 T D_h v)) \<and>
         reynolds (threshold_wind D_h) D_h = 100000 \<and>
         h_branch 0.027 0.805 T D_h (threshold_wind D_h)
           < h_branch 0.3 0.62 T D_h (threshold_wind D_h)"
proof (intro conjI allI impI)
  show "continuous_on {0..} (h_branch 0.3 0.62 T D_h)"
    using assms(1) by (rule h_branch_continuous) simp_all
  show "continuous_on {0..} (h_branch 0.027 0.805 T D_h)"
    using assms(1) by (rule h_branch_continuous) simp_all
  show "h_coefficient \<lparr> T_air = T, v_wind = v \<rparr> D_h =
          fl (if reynolds v D_h < 100000 then h_branch 0.3 0.62 T D_h v
              else h_branch 0.027 0.805 T D_h v)" if "0 \<le> v" for v
    using assms that by (rule h_coefficient_branches)
  show "reynolds (threshold_wind D_h) D_h = 100000"
    using assms(1) by (rule reynolds_threshold)
  show "h_branch 0.027 0.805 T D_h (threshold_wind D_h)
           < h_branch 0.3 0.62 T D_h (threshold_wind D_h)"
    using assms(1) by (rule h_branch_jump)
qed

text \<open>
  C3, witness: 15 degrees and a finned diameter of 0.428 m; the lower regime at
  1 m/s, the upper regime at 5 m/s.
\<close>

theorem h_coefficient_piecewise_continuous_witness:
  "(0::real) < 0.428 \<and> (- 160::real) \<le> 15 \<and>
   continuous_on {0..} (h_branch 0.3 0.62 15 0.428) \<and>
   continuous_on {0..} (h_branch 0.027 0.805 15 0.428) \<and>
   h_coefficient \<lparr> T_air = 15, v_wind = 1 \<rparr> 0.428 = fl (h_branch 0.3 0.62 15 0.428 1) \<and>
   h_coefficient \<lparr> T_air = 15, v_wind = 5 \<rparr> 0.428 = fl (h_branch 0.027 0.805 15 0.428 5) \<and>
   h_branch 0.027 0.805 15 0.428 (threshold_wind 0.428)
     < h_branch 0.3 0.62 15 0.428 (threshold_wind 0.428)"
proof -
  have D: "(0::real) < 0.428" and T: "(- 160::real) \<le> 15"
    by simp_all
  have r: "reynolds 1 0.428 < 100000" "\<not> reynolds 5 0.428 < 100000"
    by (simp_all add: reynolds_def RHO_GNG_def MU_AIR_def)
  have "h_coefficient \<lparr> T_air = 15, v_wind = 1 \<rparr> 0.428 = fl (h_branch 0.3 0.62 15 0.428 1)"
    using h_coefficient_piecewise_continuous [OF D T] r(1) by simp
  moreover have "h_coefficient \<lparr> T_air = 15, v_wind = 5 \<rparr> 0.428
                   = fl (h_branch 0.027 0.805 15 0.428 5)"
    using h_coefficient_piecewise_continuous [OF D T] r(2) by simp
  ultimately show ?thesis
    using h_coefficient_piecewise_continuous [OF D T] by simp
qed

text \<open>
  C3, counterexample: at 15 degrees and a finned diameter of 0.428 m the threshold is
  reached at about 4.2 m/s, and no function continuous there gives the values of
  \<open>h_coefficient\<close> for all wind speeds; from 4.2 to 4.21 m/s the coefficient
  falls by more than four percent.
\<close>

theorem h_coefficient_not_continuous:
  "\<not> (\<exists>f. isCont f (threshold_wind 0.428) \<and>
          (\<forall>v\<ge>0. h_coefficient \<lparr> T_air = 15, v_wind = v \<rparr> 0.428 = fl (f v))) \<and>
   h_coefficient \<lparr> T_air = 15, v_wind = 4.2 \<rparr> 0.428
     = fl (h_spec \<lparr> T_air = 15, v_wind = 4.2 \<rparr> 0.428) \<and>
   h_coefficient \<lparr> T_air = 15, v_wind = 4.21 \<rparr> 0.428
     = fl (h_spec \<lparr> T_air = 15, v_wind = 4.21 \<rparr> 0.428) \<and>
   h_spec \<lparr> T_air = 15, v_wind = 4.21 \<rparr> 0.428
     \<le> 0.96 * h_spec \<lparr> T_air = 15, v_wind = 4.2 \<rparr> 0.428"
proof (intro conjI notI)
  assume "\<exists>f. isCont f (threshold_wind 0.428) \<and>
          (\<forall>v\<ge>0. h_coefficient \<lparr> T_air = 15, v_wind = v \<rparr> 0.428 = fl (f v))"
  then obtain f where "isCont f (threshold_wind 0.428)"
    and "\<forall>v\<ge>0. h_coefficient \<lparr> T_air = 15, v_wind = v \<rparr> 0.428 = fl (f v)"
    by blast
  then show False
    by (intro no_continuous_description [of "0.428" 15 f]) simp_all
next
  show "h_coefficient \<lparr> T_air = 15, v_wind = 4.2 \<rparr> 0.428
     = fl (h_spec \<lparr> T_air = 15, v_wind = 4.2 \<rparr> 0.428)"
    by (rule h_coefficient_float) simp_all
  show "h_coefficient \<lparr> T_air = 15, v_wind = 4.21 \<rparr> 0.428
     = fl (h_spec \<lparr> T_air = 15, v_wind = 4.21 \<rparr> 0.428)"
    by (rule h_coefficient_float) simp_all
  show "h_spec \<lparr> T_air = 15, v_wind = 4.21 \<rparr> 0.428
     \<le> 0.96 * h_spec \<lparr> T_air = 15, v_wind = 4.2 \<rparr> 0.428"
    by (rule h_spec_drop)
qed

subsection \<open>C4: steady capacity\<close>

text \<open>
  C4: for valid inputs the coefficient at the finned diameter is a float \<open>U\<close>, and
  \<open>capacity\<close> in mode \<^verbatim>\<open>"steady"\<close> returns the flow built from it: area per tube
  as area per metre times tube length, heat duty \<open>U\<close> times that area times the
  difference to \<open>-160\<close> degrees, mass flow as the duty over the latent heat alone,
  times the tube count \<open>tubes_x * tubes_y\<close> and \<open>3600 / 0.693\<close>.
\<close>

theorem capacity_steady_formula:
  assumes "valid_gasifier self"
  shows "\<exists>U. h_coefficient (ambient self) (finned_diameter_m self) = fl U \<and>
           capacity self ''steady'' = fl (capacity_spec U self)"
proof -
  have "capacity self ''steady''
          = fl (capacity_spec (h_spec (ambient self) (finned_diameter_m self)) self)"
    using assms by (rule capacity_steady_valid) simp
  then show ?thesis
    using h_coefficient_valid [OF assms] by blast
qed

text \<open>
  C4, witness: the input at the threshold, 40 mm tubes with fins of 280 mm at 3 m/s.
\<close>

theorem capacity_steady_formula_witness:
  "valid_gasifier threshold_gasif \<and>
   (\<exists>U. h_coefficient (ambient threshold_gasif) (finned_diameter_m threshold_gasif) = fl U \<and>
      capacity threshold_gasif ''steady'' = fl (capacity_spec U threshold_gasif))"
  using valid_threshold_gasif capacity_steady_formula [OF valid_threshold_gasif] by simp

subsection \<open>C5: cold start is half of steady\<close>

text \<open>
  C5: for valid inputs the cold-start capacity is one half of the steady capacity;
  the thermal time constant is computed on the way, returns a float, and its value
  does not occur in the result.
\<close>

theorem capacity_cold_start_half:
  assumes "valid_gasifier self"
  shows "\<exists>q tau. capacity self ''steady'' = fl q \<and> thermal_time_constant self = fl tau \<and>
           capacity self ''cold-start'' = fl (q * 0.5)"
proof -
  let ?q = "capacity_spec (h_spec (ambient self) (finned_diameter_m self)) self"
  have s: "capacity self ''steady'' = fl ?q"
    using assms by (rule capacity_steady_valid) simp
  have c: "capacity self ''cold-start'' = fl (?q * 0.5)"
    unfolding capacity_def Let_def finned_diameter_m_def [symmetric]
      flow_total_float [OF h_coefficient_valid [OF assms]]
      thermal_time_constant_valid [OF assms]
    by (simp add: fl_def py_mul_def)
  show ?thesis
    using s c thermal_time_constant_valid [OF assms] by blast
qed

text \<open>
  C5, witness: the example gasifier of the source.
\<close>

theorem capacity_cold_start_half_witness:
  "valid_gasifier example_gasif \<and>
   (\<exists>q tau. capacity example_gasif ''steady'' = fl q \<and>
      thermal_time_constant example_gasif = fl tau \<and>
      capacity example_gasif ''cold-start'' = fl (q * 0.5))"
  using valid_example_gasif capacity_cold_start_half [OF valid_example_gasif] by simp

subsection \<open>C6: thermal time constant\<close>

text \<open>
  C6: for valid inputs the coefficient at the finned diameter is a positive float
  \<open>h\<close>, and \<open>thermal_time_constant\<close> returns the thermal capacitance over the
  convective conductance, in hours: \<open>Cth / (h * total area) / 3600\<close> with the
  aluminium mass from the area per tube, a 2 mm wall, the density 2700 and the tube
  count \<open>tubes_x * tubes_y\<close>, the specific heat 900, and the total area as area per
  tube times the tube count.
\<close>

theorem thermal_time_constant_formula:
  assumes "valid_gasifier self"
  shows "\<exists>h. h_coefficient (ambient self) (finned_diameter_m self) = fl h \<and> 0 < h \<and>
           thermal_time_constant self = fl (tau_spec h self)"
proof -
  have "0 < h_spec (ambient self) (finned_diameter_m self)"
    using assms by (simp add: valid_gasifier_def finned_diameter_pos h_spec_pos)
  then show ?thesis
    using h_coefficient_valid [OF assms] thermal_time_constant_valid [OF assms] by blast
qed

text \<open>
  C6, witness: the example gasifier of the source.
\<close>

theorem thermal_time_constant_formula_witness:
  "valid_gasifier example_gasif \<and>
   (\<exists>h. h_coefficient (ambient example_gasif) (finned_diameter_m example_gasif) = fl h \<and>
      0 < h \<and> thermal_time_constant example_gasif = fl (tau_spec h example_gasif))"
  using valid_example_gasif thermal_time_constant_formula [OF valid_example_gasif] by simp

subsection \<open>C7: footprint\<close>

text \<open>
  C7: \<open>footprint_mm\<close> returns \<open>(tubes_x - 1) * spacing_x + d\<close> and
  \<open>(tubes_y - 1) * spacing_y + d\<close>; for valid inputs \<open>summary\<close> returns, and the
  footprint it reports is the rounded footprint at the finned diameter, tube diameter
  plus twice the fin height.
\<close>

theorem footprint_finned_diameter:
  assumes "valid_gasifier self"
  shows "footprint_mm m d =
           ((of_int (tubes_x m) - 1) * spacing_x_mm m + d,
            (of_int (tubes_y m) - 1) * spacing_y_mm m + d) \<and>
         (\<exists>s. summary self = Inr s \<and>
            s_footprint_x s = round_half_even
              ((of_int (tubes_x (module self)) - 1) * spacing_x_mm (module self)
                 + (tube_od_mm (geom self) + 2 * fin_height_mm (geom self))) \<and>
            s_footprint_y s = round_half_even
              ((of_int (tubes_y (module self)) - 1) * spacing_y_mm (module self)
                 + (tube_od_mm (geom self) + 2 * fin_height_mm (geom self))))"
  unfolding summary_valid [OF assms]
  by (simp add: footprint_mm_def Let_def)

text \<open>
  C7, witness: the example gasifier of the source, finned diameter 628 mm.
\<close>

theorem footprint_finned_diameter_witness:
  "valid_gasifier example_gasif \<and>
   footprint_mm (module example_gasif) 628 = (2133, 4283) \<and>
   (\<exists>s. summary example_gasif = Inr s \<and> s_footprint_x s = 2133 \<and> s_footprint_y s = 4283)"
proof -
  have v: "valid_gasifier example_gasif"
    by (simp add: valid_gasifier_def valid_geometry_def valid_module_def valid_ambient_def
        example_gasif_def)
  have r: "round_half_even 2133 = 2133" "round_half_even 4283 = 4283"
    by (simp_all add: round_half_even_def)
  show ?thesis
    using v footprint_finned_diameter [OF v, of "module example_gasif" 628]
    by (simp add: example_gasif_def r)
qed

subsection \<open>C8: monotonicity of the area\<close>

text \<open>
  C8, as the code has it: for a valid geometry \<open>area_per_meter\<close> is strictly
  increasing in the fin height when there is at least one fin, and strictly increasing
  in the fin count when the fin height is positive.
\<close>

theorem area_per_meter_strict_mono:
  assumes "valid_geometry g"
  shows "(0 < fins_per_tube g \<longrightarrow> fin_height_mm g < h' \<longrightarrow>
            area_per_meter g < area_per_meter (g\<lparr>fin_height_mm := h'\<rparr>)) \<and>
         (0 < fin_height_mm g \<longrightarrow> fins_per_tube g < n' \<longrightarrow>
            area_per_meter g < area_per_meter (g\<lparr>fins_per_tube := n'\<rparr>))"
proof -
  have od: "0 < tube_od_mm g" and eff: "0 < fin_efficiency g"
    using assms by (simp_all add: valid_geometry_def)
  have 1: "area_per_meter g < area_per_meter (g\<lparr>fin_height_mm := h'\<rparr>)"
    if "0 < fins_per_tube g" and "fin_height_mm g < h'"
  proof -
    have "0 < fin_efficiency g * of_int (fins_per_tube g) * (2 * pi * (tube_od_mm g / 1000))"
      using od eff that(1) by simp
    then have "fin_efficiency g * of_int (fins_per_tube g) * (2 * pi * (tube_od_mm g / 1000))
                 * (fin_height_mm g / 1000)
               < fin_efficiency g * of_int (fins_per_tube g) * (2 * pi * (tube_od_mm g / 1000))
                 * (h' / 1000)"
      using that(2) by (intro mult_strict_left_mono) simp_all
    then show ?thesis
      by (simp add: area_per_meter_def Let_def mult_ac)
  qed
  have 2: "area_per_meter g < area_per_meter (g\<lparr>fins_per_tube := n'\<rparr>)"
    if "0 < fin_height_mm g" and "fins_per_tube g < n'"
  proof -
    have "0 < fin_efficiency g * (2 * pi * (tube_od_mm g / 1000) * fin_height_mm g / 1000)"
      using od eff that(1) by simp
    then have "fin_efficiency g * (2 * pi * (tube_od_mm g / 1000) * fin_height_mm g / 1000)
                 * of_int (fins_per_tube g)
               < fin_efficiency g * (2 * pi * (tube_od_mm g / 1000) * fin_height_mm g / 1000)
                 * of_int n'"
      using that(2) by (intro mult_strict_left_mono) simp_all
    then show ?thesis
      by (simp add: area_per_meter_def Let_def mult_ac)
  qed
  show ?thesis
    using 1 2 by blast
qed

text \<open>
  C8, witness: the default geometry, fin height 200 to 300 mm, fins 12 to 16.
\<close>

theorem area_per_meter_strict_mono_witness:
  "valid_geometry \<lparr> tube_od_mm = 28, fin_height_mm = 200, fins_per_tube = 12,
                    fin_efficiency = 0.85 \<rparr> \<and>
   area_per_meter \<lparr> tube_od_mm = 28, fin_height_mm = 200, fins_per_tube = 12,
                    fin_efficiency = 0.85 \<rparr>
     < area_per_meter \<lparr> tube_od_mm = 28, fin_height_mm = 300, fins_per_tube = 12,
                        fin_efficiency = 0.85 \<rparr> \<and>
   area_per_meter \<lparr> tube_od_mm = 28, fin_height_mm = 200, fins_per_tube = 12,
                    fin_efficiency = 0.85 \<rparr>
     < area_per_meter \<lparr> tube_od_mm = 28, fin_height_mm = 200, fins_per_tube = 16,
                        fin_efficiency = 0.85 \<rparr>"
proof -
  have v: "valid_geometry \<lparr> tube_od_mm = 28, fin_height_mm = 200, fins_per_tube = 12,
                            fin_efficiency = 0.85 \<rparr>"
    by (simp add: valid_geometry_def)
  show ?thesis
    using v area_per_meter_strict_mono [OF v, of 300 16] by simp
qed

text \<open>
  C8, counterexample: without fins the area does not grow with the fin height, and
  with fins of height zero it does not grow with the fin count; both geometries are
  valid.
\<close>

theorem area_per_meter_not_strict_without_fins:
  "valid_geometry \<lparr> tube_od_mm = 28, fin_height_mm = 100, fins_per_tube = 0,
                    fin_efficiency = 0.85 \<rparr> \<and>
   valid_geometry \<lparr> tube_od_mm = 28, fin_height_mm = 200, fins_per_tube = 0,
                    fin_efficiency = 0.85 \<rparr> \<and>
   \<not> area_per_meter \<lparr> tube_od_mm = 28, fin_height_mm = 100, fins_per_tube = 0,
                      fin_efficiency = 0.85 \<rparr>
       < area_per_meter \<lparr> tube_od_mm = 28, fin_height_mm = 200, fins_per_tube = 0,
                          fin_efficiency = 0.85 \<rparr> \<and>
   valid_geometry \<lparr> tube_od_mm = 28, fin_height_mm = 0, fins_per_tube = 6,
                    fin_efficiency = 0.85 \<rparr> \<and>
   valid_geometry \<lparr> tube_od_mm = 28, fin_height_mm = 0, fins_per_tube = 12,
                    fin_efficiency = 0.85 \<rparr> \<and>
   \<not> area_per_meter \<lparr> tube_od_mm = 28, fin_height_mm = 0, fins_per_tube = 6,
                      fin_efficiency = 0.85 \<rparr>
       < area_per_meter \<lparr> tube_od_mm = 28, fin_height_mm = 0, fins_per_tube = 12,
                          fin_efficiency = 0.85 \<rparr>"
  by (simp add: valid_geometry_def area_per_meter_def Let_def)

subsection \<open>C9: a diameter that is not positive\<close>

text \<open>
  C9, as the code has it: \<open>h_coefficient\<close> raises exactly when \<open>D_h = 0\<close>, and what
  it raises is the \<^verbatim>\<open>ZeroDivisionError\<close> of the last division; for every other
  diameter, the negative ones included, it returns a value; for \<open>D_h > 0\<close>, wind not
  negative and air no colder than the reference the value is a float.
\<close>

theorem h_coefficient_raises_iff:
  "(h_coefficient a D_h = Inl ZeroDivisionError \<longleftrightarrow> D_h = 0) \<and>
   (D_h \<noteq> 0 \<longrightarrow> (\<exists>v. h_coefficient a D_h = Inr v)) \<and>
   (0 < D_h \<longrightarrow> 0 \<le> v_wind a \<longrightarrow> - 160 \<le> T_air a \<longrightarrow>
      (\<exists>x. h_coefficient a D_h = Inr (Float x)))"
proof (intro conjI impI)
  show "h_coefficient a D_h = Inl ZeroDivisionError \<longleftrightarrow> D_h = 0"
  proof
    assume e: "h_coefficient a D_h = Inl ZeroDivisionError"
    show "D_h = 0"
    proof (rule ccontr)
      assume "D_h \<noteq> 0"
      from h_coefficient_no_raise [OF this, of a] e show False
        by simp
    qed
  next
    assume "D_h = 0"
    then show "h_coefficient a D_h = Inl ZeroDivisionError"
      by (simp add: h_coefficient_zero)
  qed
  show "\<exists>v. h_coefficient a D_h = Inr v" if "D_h \<noteq> 0"
    using h_coefficient_no_raise [OF that, of a] by (cases "h_coefficient a D_h") simp_all
  show "\<exists>x. h_coefficient a D_h = Inr (Float x)"
    if "0 < D_h" "0 \<le> v_wind a" "- 160 \<le> T_air a"
    using h_coefficient_float [OF that] by (simp add: fl_def)
qed

text \<open>
  C9, witness: diameters 0, -1 and 0.428 at 15 degrees and 0.5 m/s.
\<close>

theorem h_coefficient_raises_iff_witness:
  "h_coefficient \<lparr> T_air = 15, v_wind = 0.5 \<rparr> 0 = Inl ZeroDivisionError \<and>
   (- 1::real) \<noteq> 0 \<and> (\<exists>v. h_coefficient \<lparr> T_air = 15, v_wind = 0.5 \<rparr> (- 1) = Inr v) \<and>
   (0::real) < 0.428 \<and> (0::real) \<le> 0.5 \<and> (- 160::real) \<le> 15 \<and>
   (\<exists>x. h_coefficient \<lparr> T_air = 15, v_wind = 0.5 \<rparr> 0.428 = Inr (Float x))"
  using h_coefficient_raises_iff [of "\<lparr> T_air = 15, v_wind = 0.5 \<rparr>" 0]
    h_coefficient_raises_iff [of "\<lparr> T_air = 15, v_wind = 0.5 \<rparr>" "- 1"]
    h_coefficient_raises_iff [of "\<lparr> T_air = 15, v_wind = 0.5 \<rparr>" "0.428"]
  by simp

text \<open>
  C9, counterexample: with \<open>D_h = -1\<close> no error is raised.
\<close>

theorem h_coefficient_negative_diameter_no_error:
  "\<not> isl (h_coefficient \<lparr> T_air = 15, v_wind = 0.5 \<rparr> (- 1))"
  by (rule h_coefficient_no_raise) simp

subsection \<open>C10: what the thermal time constant depends on\<close>

text \<open>
  C10: for valid inputs the coefficient at the finned diameter is a positive float
  \<open>h\<close> and the thermal time constant is \<open>(2700 * 0.002 * 900) / (3600 * h)\<close>; two
  valid gasifiers with the same tube diameter, fin height and ambient conditions have
  the same time constant, whatever their tube count, tube length, fin count and fin
  efficiency.
\<close>

theorem thermal_time_constant_independent:
  assumes "valid_gasifier self" and "valid_gasifier other"
    and "tube_od_mm (geom other) = tube_od_mm (geom self)"
    and "fin_height_mm (geom other) = fin_height_mm (geom self)"
    and "ambient other = ambient self"
  shows "(\<exists>h. h_coefficient (ambient self) (finned_diameter_m self) = fl h \<and> 0 < h \<and>
            thermal_time_constant self = fl ((2700 * 0.002 * 900) / (3600 * h))) \<and>
         thermal_time_constant other = thermal_time_constant self"
proof -
  have eq: "thermal_time_constant g =
              fl ((2700 * 0.002 * 900) / (3600 * h_spec (ambient g) (finned_diameter_m g)))"
    if "valid_gasifier g" for g
    using thermal_time_constant_valid [OF that] tau_spec_cancel [OF that] by simp
  have d: "finned_diameter_m other = finned_diameter_m self"
    using assms(3,4) by (simp add: finned_diameter_m_def)
  have "0 < h_spec (ambient self) (finned_diameter_m self)"
    using assms(1) by (simp add: valid_gasifier_def finned_diameter_pos h_spec_pos)
  then have "\<exists>h. h_coefficient (ambient self) (finned_diameter_m self) = fl h \<and> 0 < h \<and>
            thermal_time_constant self = fl ((2700 * 0.002 * 900) / (3600 * h))"
    using h_coefficient_valid [OF assms(1)] eq [OF assms(1)] by blast
  moreover have "thermal_time_constant other = thermal_time_constant self"
    using eq [OF assms(1)] eq [OF assms(2)] d assms(5) by simp
  ultimately show ?thesis
    by blast
qed

text \<open>
  C10, witness: the example gasifier against one with 9 by 8 tubes of 4.6 m, 12 fins
  and efficiency 0.9.
\<close>

theorem thermal_time_constant_independent_witness:
  "valid_gasifier example_gasif \<and>
   valid_gasifier (example_gasif
     \<lparr> geom := (geom example_gasif) \<lparr> fins_per_tube := 12, fin_efficiency := 0.9 \<rparr>,
       module := \<lparr> tubes_x = 9, tubes_y = 8, spacing_x_mm = 215, spacing_y_mm = 300 \<rparr>,
       tube_length_mm := 4600 \<rparr>) \<and>
   (\<exists>h. h_coefficient (ambient example_gasif) (finned_diameter_m example_gasif) = fl h \<and>
      0 < h \<and>
      thermal_time_constant example_gasif = fl ((2700 * 0.002 * 900) / (3600 * h))) \<and>
   thermal_time_constant (example_gasif
     \<lparr> geom := (geom example_gasif) \<lparr> fins_per_tube := 12, fin_efficiency := 0.9 \<rparr>,
       module := \<lparr> tubes_x = 9, tubes_y = 8, spacing_x_mm = 215, spacing_y_mm = 300 \<rparr>,
       tube_length_mm := 4600 \<rparr>) = thermal_time_constant example_gasif"
proof -
  let ?other = "example_gasif
     \<lparr> geom := (geom example_gasif) \<lparr> fins_per_tube := 12, fin_efficiency := 0.9 \<rparr>,
       module := \<lparr> tubes_x = 9, tubes_y = 8, spacing_x_mm = 215, spacing_y_mm = 300 \<rparr>,
       tube_length_mm := 4600 \<rparr>"
  have w: "valid_gasifier ?other"
    by (simp add: valid_gasifier_def valid_geometry_def valid_module_def valid_ambient_def
        example_gasif_def)
  show ?thesis
    using valid_example_gasif w
      thermal_time_constant_independent [OF valid_example_gasif w]
    by simp
qed


end
